theory Spec2Isabelle
  imports Main "HOL-Library.Char_ord" "HOL-Library.List_Lexorder"
begin

section \<open>Data model\<close>

text \<open>
  The service of \<^verbatim>\<open>src/api/app\<close> keeps two tables, \<^verbatim>\<open>jobs\<close> and \<^verbatim>\<open>workers\<close>
  (\<^verbatim>\<open>models.py\<close>), and exposes them through the handlers of \<^verbatim>\<open>main.py\<close>;
  request bodies are checked against the schemas of \<^verbatim>\<open>schemas.py\<close>.

  A \<^verbatim>\<open>datetime.date\<close> is modelled by its proleptic ordinal (\<^verbatim>\<open>date.toordinal()\<close>),
  which orders dates exactly as Python compares them. A date object is always truthy, so
  a test such as \<^verbatim>\<open>if start_after\<close> only asks whether the value is present. Python
  integers are unbounded (\<open>int\<close>); the value \<open>0\<close> is falsy, and so is the empty string.
  A string is the list of its characters.
\<close>

type_synonym date = int

record Job =
  Job_id :: int
  Job_name :: string
  Job_customer :: string
  Job_start_date :: "date option"
  Job_end_date :: "date option"
  Job_status :: "string option"

record Worker =
  Worker_id :: int
  Worker_name :: string
  Worker_role :: string
  Worker_job_id :: "int option"

text \<open>The request schemas \<^verbatim>\<open>JobCreate\<close> and \<^verbatim>\<open>WorkerCreate\<close>, and the response schema
  \<^verbatim>\<open>JobResponse\<close>, which embeds the job's workers (\<^verbatim>\<open>WorkerResponse\<close> has exactly the
  columns of a worker row).\<close>

record JobCreate =
  JobCreate_name :: string
  JobCreate_customer :: string
  JobCreate_start_date :: "date option"
  JobCreate_end_date :: "date option"
  JobCreate_status :: "string option"

record WorkerCreate =
  WorkerCreate_name :: string
  WorkerCreate_role :: string
  WorkerCreate_job_id :: "int option"

record JobResponse =
  JobResponse_job :: Job
  JobResponse_workers :: "Worker list"

text \<open>
  The database: both tables in insertion order, and the two sequences that generate the
  integer primary keys. The schema of \<^verbatim>\<open>models.py\<close> declares \<^verbatim>\<open>id\<close> as primary key of
  both tables and \<^verbatim>\<open>workers.job_id\<close> as a foreign key into \<^verbatim>\<open>jobs.id\<close>; the store
  enforces both when a row is written (see \<open>create_job\<close>, \<open>insert_worker\<close>).
\<close>

record store =
  jobs :: "Job list"
  workers :: "Worker list"
  jobs_id_seq :: int
  workers_id_seq :: int

definition empty_store :: store where
  "empty_store = \<lparr>jobs = [], workers = [], jobs_id_seq = 1, workers_id_seq = 1\<rparr>"

section \<open>Errors\<close>

text \<open>
  A handler either returns a value or raises \<^verbatim>\<open>HTTPException(status_code, detail)\<close>.
  Any other exception raised in a handler, such as an \<^verbatim>\<open>AttributeError\<close> (the type that
  lacks the attribute, and the attribute), is not caught by \<^verbatim>\<open>get_db\<close>, which catches
  \<^verbatim>\<open>SQLAlchemyError\<close> only, and the request is answered with status 500.
  The framework builds the handler's arguments before it calls the handler: a request
  body for which a field constraint or a validator of its schema fails never reaches the
  handler, and is answered with the framework's own validation error, status 422.
\<close>

datatype error =
    RequestValidationError
  | HTTPException nat string
  | AttributeError string string

abbreviation HTTP_400_BAD_REQUEST :: nat where "HTTP_400_BAD_REQUEST \<equiv> 400"
abbreviation HTTP_404_NOT_FOUND :: nat where "HTTP_404_NOT_FOUND \<equiv> 404"
abbreviation HTTP_422_UNPROCESSABLE_ENTITY :: nat where "HTTP_422_UNPROCESSABLE_ENTITY \<equiv> 422"
abbreviation HTTP_500_INTERNAL_SERVER_ERROR :: nat where "HTTP_500_INTERNAL_SERVER_ERROR \<equiv> 500"
abbreviation HTTP_200_OK :: nat where "HTTP_200_OK \<equiv> 200"
abbreviation HTTP_201_CREATED :: nat where "HTTP_201_CREATED \<equiv> 201"
abbreviation HTTP_204_NO_CONTENT :: nat where "HTTP_204_NO_CONTENT \<equiv> 204"

fun error_status :: "error \<Rightarrow> nat" where
  "error_status RequestValidationError = HTTP_422_UNPROCESSABLE_ENTITY"
| "error_status (HTTPException code detail) = code"
| "error_status (AttributeError ty attribute) = HTTP_500_INTERNAL_SERVER_ERROR"

text \<open>The status of a response: the handler's declared success status, or the error's.\<close>

definition response_status :: "nat \<Rightarrow> error + 'a \<Rightarrow> nat" where
  "response_status ok r = (case r of Inl e \<Rightarrow> error_status e | Inr v \<Rightarrow> ok)"

text \<open>Python's \<^verbatim>\<open>str\<close> of an integer, used by the f-strings of the error details.\<close>

fun str_nat :: "nat \<Rightarrow> string" where
  "str_nat n =
     (if n < 10 then [char_of (48 + n)]
      else str_nat (n div 10) @ [char_of (48 + n mod 10)])"

declare str_nat.simps [simp del]

definition str_int :: "int \<Rightarrow> string" where
  "str_int i = (if i < 0 then CHR ''-'' # str_nat (nat (- i)) else str_nat (nat i))"

definition job_not_found :: "int \<Rightarrow> error" where
  "job_not_found job_id =
     HTTPException HTTP_404_NOT_FOUND (''Job with id '' @ str_int job_id @ '' not found'')"

definition worker_not_found :: "int \<Rightarrow> error" where
  "worker_not_found worker_id =
     HTTPException HTTP_404_NOT_FOUND (''Worker with id '' @ str_int worker_id @ '' not found'')"

text \<open>\<^verbatim>\<open>get_db\<close> turns every \<^verbatim>\<open>SQLAlchemyError\<close> raised inside the handler into this
  exception, after rolling the transaction back.\<close>

definition database_error :: error where
  "database_error = HTTPException HTTP_500_INTERNAL_SERVER_ERROR ''Database error occurred''"

section \<open>Request validation (schemas.py)\<close>

text \<open>\<^verbatim>\<open>Field(..., min_length=1, max_length=100)\<close> on \<^verbatim>\<open>name\<close>, \<^verbatim>\<open>customer\<close>, \<^verbatim>\<open>role\<close>.\<close>

definition length_ok :: "string \<Rightarrow> bool" where
  "length_ok s = (1 \<le> length s \<and> length s \<le> 100)"

text \<open>\<^verbatim>\<open>JobBase.status\<close>: \<^verbatim>\<open>pattern="^(In Progress|Completed|Cancelled)$"\<close>.\<close>

definition JobBase_status_pattern :: "string \<Rightarrow> bool" where
  "JobBase_status_pattern s = (s \<in> set [''In Progress'', ''Completed'', ''Cancelled''])"

text \<open>The \<^verbatim>\<open>status\<close> query parameter of \<^verbatim>\<open>get_jobs\<close>:
  \<^verbatim>\<open>pattern="^(Pending|In Progress|Completed|Cancelled)$"\<close>.\<close>

definition get_jobs_status_pattern :: "string \<Rightarrow> bool" where
  "get_jobs_status_pattern s =
     (s \<in> set [''Pending'', ''In Progress'', ''Completed'', ''Cancelled''])"

text \<open>\<^verbatim>\<open>JobBase.validate_dates\<close>, the validator of \<^verbatim>\<open>end_date\<close>: \<open>Inl\<close> is the
  \<^verbatim>\<open>ValueError\<close> it raises, \<open>Inr\<close> the value it returns.\<close>

definition validate_dates :: "date option \<Rightarrow> date option \<Rightarrow> string + date option" where
  "validate_dates start_date end_date =
     (case (start_date, end_date) of
        (Some s, Some e) \<Rightarrow>
          if e < s then Inl ''end_date must be after start_date'' else Inr end_date
      | _ \<Rightarrow> Inr end_date)"

text \<open>Building a \<^verbatim>\<open>JobCreate\<close> from a request body: every field constraint and the
  validator must pass; otherwise the request is rejected before \<^verbatim>\<open>create_job\<close> runs.\<close>

definition JobCreate_validate :: "JobCreate \<Rightarrow> error + JobCreate" where
  "JobCreate_validate body =
     (if \<not> length_ok (JobCreate_name body) then Inl RequestValidationError
      else if \<not> length_ok (JobCreate_customer body) then Inl RequestValidationError
      else if (case JobCreate_status body of None \<Rightarrow> False
               | Some s \<Rightarrow> \<not> JobBase_status_pattern s) then Inl RequestValidationError
      else case validate_dates (JobCreate_start_date body) (JobCreate_end_date body) of
             Inl msg \<Rightarrow> Inl RequestValidationError
           | Inr e \<Rightarrow> Inr (body\<lparr>JobCreate_end_date := e\<rparr>))"

definition WorkerCreate_validate :: "WorkerCreate \<Rightarrow> error + WorkerCreate" where
  "WorkerCreate_validate body =
     (if \<not> length_ok (WorkerCreate_name body) then Inl RequestValidationError
      else if \<not> length_ok (WorkerCreate_role body) then Inl RequestValidationError
      else Inr body)"

section \<open>Queries on the store\<close>

text \<open>\<^verbatim>\<open>db.query(Job).filter(Job.id == job_id).first()\<close> and the same for workers.\<close>

definition query_job :: "int \<Rightarrow> store \<Rightarrow> Job option" where
  "query_job job_id db = find (\<lambda>j. Job_id j = job_id) (jobs db)"

definition query_worker :: "int \<Rightarrow> store \<Rightarrow> Worker option" where
  "query_worker worker_id db = find (\<lambda>w. Worker_id w = worker_id) (workers db)"

text \<open>The relationship \<^verbatim>\<open>Job.workers\<close>: the workers whose \<^verbatim>\<open>job_id\<close> is the job's id.\<close>

definition Job_workers :: "Job \<Rightarrow> store \<Rightarrow> Worker list" where
  "Job_workers job db = filter (\<lambda>w. Worker_job_id w = Some (Job_id job)) (workers db)"

definition joinedload :: "store \<Rightarrow> Job \<Rightarrow> JobResponse" where
  "joinedload db job = \<lparr>JobResponse_job = job, JobResponse_workers = Job_workers job db\<rparr>"

section \<open>Creating jobs (POST /jobs/)\<close>

text \<open>
  \<^verbatim>\<open>db.add(db_job); db.commit()\<close>: the row takes the next value of the sequence as its
  id. The sequence advances even when the insert fails. A duplicate primary key makes the
  commit fail with an \<^verbatim>\<open>IntegrityError\<close>, which \<^verbatim>\<open>get_db\<close> answers with status 500.
  The handler returns the row it re-reads by that id, with its workers loaded. The
  handler's \<^verbatim>\<open>except ValueError\<close> clause guards statements that raise no
  \<^verbatim>\<open>ValueError\<close>, so it has no branch here.
\<close>

definition Job_of :: "int \<Rightarrow> JobCreate \<Rightarrow> Job" where
  "Job_of i job =
     \<lparr>Job_id = i, Job_name = JobCreate_name job, Job_customer = JobCreate_customer job,
      Job_start_date = JobCreate_start_date job, Job_end_date = JobCreate_end_date job,
      Job_status = JobCreate_status job\<rparr>"

definition create_job :: "JobCreate \<Rightarrow> store \<Rightarrow> (error + JobResponse) \<times> store" where
  "create_job job db =
     (let db_job = Job_of (jobs_id_seq db) job;
          db1 = db\<lparr>jobs_id_seq := jobs_id_seq db + 1\<rparr>
      in if Job_id db_job \<in> set (map Job_id (jobs db)) then (Inl database_error, db1)
         else let db2 = db1\<lparr>jobs := jobs db @ [db_job]\<rparr>
              in (Inr (joinedload db2 db_job), db2))"

definition post_jobs :: "JobCreate \<Rightarrow> store \<Rightarrow> (error + JobResponse) \<times> store" where
  "post_jobs body db =
     (case JobCreate_validate body of
        Inl e \<Rightarrow> (Inl e, db)
      | Inr job \<Rightarrow> create_job job db)"

section \<open>Deleting jobs (DELETE /jobs/{job_id})\<close>

text \<open>
  \<^verbatim>\<open>db.delete(job)\<close> removes the row with the job's primary key. The relationship
  \<^verbatim>\<open>Job.workers\<close> is declared with \<^verbatim>\<open>cascade="all, delete-orphan"\<close> (and the foreign
  key with \<^verbatim>\<open>ondelete="CASCADE"\<close>), so the job's workers are deleted with it.
\<close>

definition delete_job :: "int \<Rightarrow> store \<Rightarrow> (error + unit) \<times> store" where
  "delete_job job_id db =
     (case query_job job_id db of
        None \<Rightarrow> (Inl (job_not_found job_id), db)
      | Some job \<Rightarrow>
          (Inr (),
           db\<lparr>jobs := filter (\<lambda>j. Job_id j \<noteq> Job_id job) (jobs db),
              workers := filter (\<lambda>w. Worker_job_id w \<noteq> Some (Job_id job)) (workers db)\<rparr>))"

section \<open>Creating workers (POST /workers/)\<close>

definition Worker_of :: "int \<Rightarrow> WorkerCreate \<Rightarrow> Worker" where
  "Worker_of i worker =
     \<lparr>Worker_id = i, Worker_name = WorkerCreate_name worker,
      Worker_role = WorkerCreate_role worker, Worker_job_id = WorkerCreate_job_id worker\<rparr>"

text \<open>
  \<^verbatim>\<open>db.add(db_worker); db.commit()\<close>. The insert fails with an \<^verbatim>\<open>IntegrityError\<close>
  (status 500 through \<^verbatim>\<open>get_db\<close>, no row written, the sequence keeps its new value)
  when the new id is already taken or when \<^verbatim>\<open>job_id\<close> is set and no job has that id:
  the foreign key of \<^verbatim>\<open>models.py\<close>.
\<close>

definition insert_worker :: "WorkerCreate \<Rightarrow> store \<Rightarrow> (error + Worker) \<times> store" where
  "insert_worker worker db =
     (let db_worker = Worker_of (workers_id_seq db) worker;
          db1 = db\<lparr>workers_id_seq := workers_id_seq db + 1\<rparr>
      in if Worker_id db_worker \<in> set (map Worker_id (workers db)) then (Inl database_error, db1)
         else if (case Worker_job_id db_worker of None \<Rightarrow> False
                  | Some j \<Rightarrow> j \<notin> set (map Job_id (jobs db))) then (Inl database_error, db1)
         else (Inr db_worker, db1\<lparr>workers := workers db @ [db_worker]\<rparr>))"

text \<open>\<^verbatim>\<open>if worker.job_id:\<close> is Python truthiness: the job is looked up only when
  \<^verbatim>\<open>job_id\<close> is present and not \<open>0\<close>.\<close>

definition create_worker :: "WorkerCreate \<Rightarrow> store \<Rightarrow> (error + Worker) \<times> store" where
  "create_worker worker db =
     (case WorkerCreate_job_id worker of
        None \<Rightarrow> insert_worker worker db
      | Some j \<Rightarrow>
          if j \<noteq> 0 \<and> query_job j db = None then (Inl (job_not_found j), db)
          else insert_worker worker db)"

definition post_workers :: "WorkerCreate \<Rightarrow> store \<Rightarrow> (error + Worker) \<times> store" where
  "post_workers body db =
     (case WorkerCreate_validate body of
        Inl e \<Rightarrow> (Inl e, db)
      | Inr worker \<Rightarrow> create_worker worker db)"

section \<open>Assigning a worker to a job (PUT /workers/{worker_id}/assign/{job_id})\<close>

text \<open>The worker is looked up first, then the job. \<^verbatim>\<open>worker.job_id = job_id\<close> followed by
  the commit updates the row with the worker's primary key; the handler returns the
  refreshed row.\<close>

definition assign_worker_to_job :: "int \<Rightarrow> int \<Rightarrow> store \<Rightarrow> (error + Worker) \<times> store" where
  "assign_worker_to_job worker_id job_id db =
     (case query_worker worker_id db of
        None \<Rightarrow> (Inl (worker_not_found worker_id), db)
      | Some worker \<Rightarrow>
          (case query_job job_id db of
             None \<Rightarrow> (Inl (job_not_found job_id), db)
           | Some job \<Rightarrow>
               (Inr (worker\<lparr>Worker_job_id := Some job_id\<rparr>),
                db\<lparr>workers :=
                     map (\<lambda>w. if Worker_id w = Worker_id worker
                               then w\<lparr>Worker_job_id := Some job_id\<rparr> else w)
                       (workers db)\<rparr>)))"

section \<open>Reading jobs and workers\<close>

text \<open>
  \<^verbatim>\<open>column.ilike(f"%{keyword}%")\<close>: SQL pattern matching without regard to case. In a
  pattern \<^verbatim>\<open>%\<close> stands for any run of characters, \<^verbatim>\<open>_\<close> for any one character, and a
  backslash takes the next character literally. Case is folded on ASCII letters.
\<close>

definition lower_char :: "char \<Rightarrow> char" where
  "lower_char c =
     (if CHR ''A'' \<le> c \<and> c \<le> CHR ''Z'' then char_of (of_char c + (32 :: nat)) else c)"

fun like :: "string \<Rightarrow> string \<Rightarrow> bool" where
  "like [] s = (s = [])"
| "like (p # ps) s =
     (if p = CHR ''%'' then
        (like ps s \<or> (case s of [] \<Rightarrow> False | c # cs \<Rightarrow> like (p # ps) cs))
      else if p = CHR ''_'' then (case s of [] \<Rightarrow> False | c # cs \<Rightarrow> like ps cs)
      else if p = CHR 0x5C then
        (case ps of [] \<Rightarrow> False
         | q # qs \<Rightarrow> (case s of [] \<Rightarrow> False | c # cs \<Rightarrow> c = q \<and> like qs cs))
      else (case s of [] \<Rightarrow> False | c # cs \<Rightarrow> c = p \<and> like ps cs))"

definition ilike :: "string \<Rightarrow> string \<Rightarrow> bool" where
  "ilike s pattern = like (map lower_char pattern) (map lower_char s)"

definition contains_pattern :: "string \<Rightarrow> string" where
  "contains_pattern keyword = ''%'' @ keyword @ ''%''"

text \<open>\<^verbatim>\<open>get_workers\<close>: each filter is applied only when its parameter is truthy.\<close>

definition get_workers :: "string option \<Rightarrow> string option \<Rightarrow> int option \<Rightarrow> store \<Rightarrow> Worker list" where
  "get_workers name role job_id db =
     (let query = workers db;
          query = (case name of None \<Rightarrow> query
                   | Some n \<Rightarrow> if n \<noteq> [] then
                       filter (\<lambda>w. ilike (Worker_name w) (contains_pattern n)) query else query);
          query = (case role of None \<Rightarrow> query
                   | Some r \<Rightarrow> if r \<noteq> [] then
                       filter (\<lambda>w. ilike (Worker_role w) (contains_pattern r)) query else query);
          query = (case job_id of None \<Rightarrow> query
                   | Some j \<Rightarrow> if j \<noteq> 0 then
                       filter (\<lambda>w. Worker_job_id w = Some j) query else query)
      in query)"

definition get_job_by_id :: "int \<Rightarrow> store \<Rightarrow> error + JobResponse" where
  "get_job_by_id job_id db =
     (case query_job job_id db of
        None \<Rightarrow> Inl (job_not_found job_id)
      | Some job \<Rightarrow> Inr (joinedload db job))"

definition get_job_workers :: "int \<Rightarrow> store \<Rightarrow> error + Worker list" where
  "get_job_workers job_id db =
     (case query_job job_id db of
        None \<Rightarrow> Inl (job_not_found job_id)
      | Some job \<Rightarrow> Inr (Job_workers job db))"

text \<open>
  \<^verbatim>\<open>get_jobs\<close>, the handler's body on the parameters it is called with (the length
  bounds on \<^verbatim>\<open>keyword\<close> and the pattern on \<^verbatim>\<open>status\<close> are checked by the framework
  before the call, see \<open>GET_jobs\<close>; the body does not test them). The date range is
  checked first, before any filter. \<^verbatim>\<open>SortField\<close> names the column of \<^verbatim>\<open>order_by\<close>. A comparison with a
  missing column value is not true in SQL, so the date and status filters drop rows
  whose column is null; in an ordering nulls count as larger than every value. Strings
  are ordered by their characters' codes. Rows with equal keys keep their table order.
\<close>

datatype SortField = SortField_name | SortField_start_date | SortField_customer | SortField_status

definition nulls_last_le :: "('a :: linorder) option \<Rightarrow> 'a option \<Rightarrow> bool" where
  "nulls_last_le a b =
     (case b of None \<Rightarrow> True
      | Some y \<Rightarrow> (case a of None \<Rightarrow> False | Some x \<Rightarrow> x \<le> y))"

fun Job_le :: "SortField \<Rightarrow> Job \<Rightarrow> Job \<Rightarrow> bool" where
  "Job_le SortField_name a b = (Job_name a \<le> Job_name b)"
| "Job_le SortField_start_date a b = nulls_last_le (Job_start_date a) (Job_start_date b)"
| "Job_le SortField_customer a b = (Job_customer a \<le> Job_customer b)"
| "Job_le SortField_status a b = nulls_last_le (Job_status a) (Job_status b)"

fun insort_by :: "('a \<Rightarrow> 'a \<Rightarrow> bool) \<Rightarrow> 'a \<Rightarrow> 'a list \<Rightarrow> 'a list" where
  "insort_by le x [] = [x]"
| "insort_by le x (y # ys) = (if le x y then x # y # ys else y # insort_by le x ys)"

definition order_by :: "('a \<Rightarrow> 'a \<Rightarrow> bool) \<Rightarrow> 'a list \<Rightarrow> 'a list" where
  "order_by le xs = foldr (insort_by le) xs []"

text \<open>
  \<^verbatim>\<open>status.HTTP_400_BAD_REQUEST\<close> inside \<^verbatim>\<open>get_jobs\<close>: the handler's parameter
  \<^verbatim>\<open>status\<close> hides the module \<^verbatim>\<open>status\<close> imported from the framework, so the attribute
  is looked up on the parameter's value, \<^verbatim>\<open>None\<close> or a string, which has no such
  attribute. \<open>type_name\<close> is the type Python names in the \<^verbatim>\<open>AttributeError\<close>.
\<close>

definition type_name :: "string option \<Rightarrow> string" where
  "type_name v = (case v of None \<Rightarrow> ''NoneType'' | Some s \<Rightarrow> ''str'')"

definition get_jobs ::
  "string option \<Rightarrow> string option \<Rightarrow> date option \<Rightarrow> date option \<Rightarrow> SortField option \<Rightarrow> bool
     \<Rightarrow> store \<Rightarrow> error + JobResponse list" where
  "get_jobs keyword status start_after end_before sort_by desc db =
     (if (case (start_after, end_before) of (Some a, Some b) \<Rightarrow> a > b | _ \<Rightarrow> False)
      then Inl (AttributeError (type_name status) ''HTTP_400_BAD_REQUEST'')
      else
        let query = jobs db;
            query = (case keyword of None \<Rightarrow> query
                     | Some k \<Rightarrow> if k \<noteq> [] then
                         filter (\<lambda>j. ilike (Job_name j) (contains_pattern k)
                                    \<or> ilike (Job_customer j) (contains_pattern k)) query
                       else query);
            query = (case status of None \<Rightarrow> query
                     | Some s \<Rightarrow> if s \<noteq> [] then
                         filter (\<lambda>j. Job_status j = Some s) query else query);
            query = (case start_after of None \<Rightarrow> query
                     | Some a \<Rightarrow>
                         filter (\<lambda>j. case Job_start_date j of None \<Rightarrow> False
                                     | Some d \<Rightarrow> d \<ge> a) query);
            query = (case end_before of None \<Rightarrow> query
                     | Some b \<Rightarrow>
                         filter (\<lambda>j. case Job_end_date j of None \<Rightarrow> False
                                     | Some d \<Rightarrow> d \<le> b) query);
            query = (case sort_by of None \<Rightarrow> query
                     | Some f \<Rightarrow>
                         if desc then order_by (\<lambda>a b. Job_le f b a) query
                         else order_by (Job_le f) query)
        in Inr (map (joinedload db) query))"

text \<open>
  \<^verbatim>\<open>GET /jobs/\<close>: the framework checks the declared constraints of the query parameters
  (\<^verbatim>\<open>keyword\<close> of 1 to 100 characters, \<^verbatim>\<open>status\<close> matching its pattern) and answers
  422 when one fails; otherwise it calls the handler.
\<close>

definition get_jobs_query_ok :: "string option \<Rightarrow> string option \<Rightarrow> bool" where
  "get_jobs_query_ok keyword status =
     ((case keyword of None \<Rightarrow> True | Some k \<Rightarrow> length_ok k)
      \<and> (case status of None \<Rightarrow> True | Some s \<Rightarrow> get_jobs_status_pattern s))"

definition GET_jobs ::
  "string option \<Rightarrow> string option \<Rightarrow> date option \<Rightarrow> date option \<Rightarrow> SortField option \<Rightarrow> bool
     \<Rightarrow> store \<Rightarrow> error + JobResponse list" where
  "GET_jobs keyword status start_after end_before sort_by desc db =
     (if get_jobs_query_ok keyword status
      then get_jobs keyword status start_after end_before sort_by desc db
      else Inl RequestValidationError)"

section \<open>Analytics (GET /analytics/)\<close>

text \<open>
  \<^verbatim>\<open>query(col, func.count(id)).group_by(col).all()\<close>: one row per distinct value of the
  column (null is a value of its own), with the number of rows that have it.
\<close>

definition group_by_count :: "'a list \<Rightarrow> ('a \<times> nat) list" where
  "group_by_count xs = map (\<lambda>k. (k, count_list xs k)) (remdups xs)"

text \<open>A Python \<^verbatim>\<open>dict\<close> built from key-value pairs in order: a key seen again overwrites
  the value it had.\<close>

fun dict_set :: "'k \<Rightarrow> 'v \<Rightarrow> ('k \<times> 'v) list \<Rightarrow> ('k \<times> 'v) list" where
  "dict_set k v [] = [(k, v)]"
| "dict_set k v (p # ps) = (if fst p = k then (k, v) # ps else p # dict_set k v ps)"

definition dict :: "('k \<times> 'v) list \<Rightarrow> ('k \<times> 'v) list" where
  "dict kvs = foldl (\<lambda>d kv. dict_set (fst kv) (snd kv) d) [] kvs"

text \<open>\<^verbatim>\<open>status if status else "Unspecified"\<close>: null and the empty string are falsy.\<close>

definition status_key :: "string option \<Rightarrow> string" where
  "status_key status =
     (case status of None \<Rightarrow> ''Unspecified''
      | Some s \<Rightarrow> if s \<noteq> [] then s else ''Unspecified'')"

record JobAnalytics =
  total_jobs :: nat
  jobs_by_status :: "(string \<times> nat) list"
  total_workers :: nat
  workers_by_role :: "(string \<times> nat) list"

definition get_analytics :: "store \<Rightarrow> JobAnalytics" where
  "get_analytics db =
     (let status_counts = group_by_count (map Job_status (jobs db));
          role_counts = group_by_count (map Worker_role (workers db))
      in \<lparr>total_jobs = length (jobs db),
          jobs_by_status = dict (map (\<lambda>(status, count). (status_key status, count)) status_counts),
          total_workers = length (workers db),
          workers_by_role = dict role_counts\<rparr>)"

section \<open>Sequences of requests\<close>

text \<open>The four requests that write to the store, and the store after a sequence of them,
  starting from the empty database.\<close>

datatype request =
    CreateJob JobCreate
  | CreateWorker WorkerCreate
  | AssignWorker int int
  | DeleteJob int

fun handle :: "request \<Rightarrow> store \<Rightarrow> store" where
  "handle (CreateJob body) db = snd (post_jobs body db)"
| "handle (CreateWorker body) db = snd (post_workers body db)"
| "handle (AssignWorker worker_id job_id) db = snd (assign_worker_to_job worker_id job_id db)"
| "handle (DeleteJob job_id) db = snd (delete_job job_id db)"

fun run :: "request list \<Rightarrow> store \<Rightarrow> store" where
  "run [] db = db"
| "run (r # rs) db = run rs (handle r db)"

section \<open>Invariants and example data\<close>

text \<open>Referential integrity: every worker whose \<^verbatim>\<open>job_id\<close> is set refers to a job of the
  store.\<close>

definition referential_integrity :: "store \<Rightarrow> bool" where
  "referential_integrity db =
     list_all (\<lambda>w. case Worker_job_id w of None \<Rightarrow> True
                   | Some j \<Rightarrow> j \<in> set (map Job_id (jobs db))) (workers db)"

text \<open>Every stored status is null or one of the values \<^verbatim>\<open>JobBase\<close> admits.\<close>

definition statuses_valid :: "store \<Rightarrow> bool" where
  "statuses_valid db =
     list_all (\<lambda>j. case Job_status j of None \<Rightarrow> True
                   | Some s \<Rightarrow> JobBase_status_pattern s) (jobs db)"

text \<open>Primary keys are unique and were all handed out by the sequences.\<close>

definition keys_fresh :: "store \<Rightarrow> bool" where
  "keys_fresh db =
     (distinct (map Job_id (jobs db)) \<and> distinct (map Worker_id (workers db))
      \<and> list_all (\<lambda>j. Job_id j < jobs_id_seq db) (jobs db)
      \<and> list_all (\<lambda>w. Worker_id w < workers_id_seq db) (workers db))"

text \<open>Two jobs, two workers and an assignment, used to exercise the theorems below.\<close>

definition job_A :: JobCreate where
  "job_A = \<lparr>JobCreate_name = ''A'', JobCreate_customer = ''B'', JobCreate_start_date = None,
            JobCreate_end_date = None, JobCreate_status = Some ''In Progress''\<rparr>"

definition job_C :: JobCreate where
  "job_C = \<lparr>JobCreate_name = ''C'', JobCreate_customer = ''D'', JobCreate_start_date = Some 5,
            JobCreate_end_date = Some 7, JobCreate_status = None\<rparr>"

definition worker_W :: WorkerCreate where
  "worker_W = \<lparr>WorkerCreate_name = ''W'', WorkerCreate_role = ''R'', WorkerCreate_job_id = Some 1\<rparr>"

definition worker_V :: WorkerCreate where
  "worker_V = \<lparr>WorkerCreate_name = ''V'', WorkerCreate_role = ''Q'', WorkerCreate_job_id = None\<rparr>"

definition example_requests :: "request list" where
  "example_requests =
     [CreateJob job_A, CreateJob job_C, CreateWorker worker_W, CreateWorker worker_V,
      AssignWorker 2 2]"

definition example_store :: store where
  "example_store =
     \<lparr>jobs = [\<lparr>Job_id = 1, Job_name = ''A'', Job_customer = ''B'', Job_start_date = None,
                Job_end_date = None, Job_status = Some ''In Progress''\<rparr>,
              \<lparr>Job_id = 2, Job_name = ''C'', Job_customer = ''D'', Job_start_date = Some 5,
                Job_end_date = Some 7, Job_status = None\<rparr>],
      workers = [\<lparr>Worker_id = 1, Worker_name = ''W'', Worker_role = ''R'',
                   Worker_job_id = Some 1\<rparr>,
                 \<lparr>Worker_id = 2, Worker_name = ''V'', Worker_role = ''Q'',
                   Worker_job_id = Some 2\<rparr>],
      jobs_id_seq = 3, workers_id_seq = 3\<rparr>"

section \<open>Basic facts\<close>

lemma example_store_simps:
  "jobs example_store =
     [\<lparr>Job_id = 1, Job_name = ''A'', Job_customer = ''B'', Job_start_date = None,
        Job_end_date = None, Job_status = Some ''In Progress''\<rparr>,
      \<lparr>Job_id = 2, Job_name = ''C'', Job_customer = ''D'', Job_start_date = Some 5,
        Job_end_date = Some 7, Job_status = None\<rparr>]"
  "workers example_store =
     [\<lparr>Worker_id = 1, Worker_name = ''W'', Worker_role = ''R'', Worker_job_id = Some 1\<rparr>,
      \<lparr>Worker_id = 2, Worker_name = ''V'', Worker_role = ''Q'', Worker_job_id = Some 2\<rparr>]"
  "jobs_id_seq example_store = 3"
  "workers_id_seq example_store = 3"
  by (simp_all add: example_store_def)

lemma run_example_requests: "run example_requests empty_store = example_store"
  by (simp add: example_requests_def example_store_def empty_store_def job_A_def job_C_def
      worker_W_def worker_V_def post_jobs_def create_job_def JobCreate_validate_def length_ok_def
      JobBase_status_pattern_def validate_dates_def Job_of_def joinedload_def Job_workers_def
      post_workers_def WorkerCreate_validate_def create_worker_def insert_worker_def
      Worker_of_def query_job_def query_worker_def assign_worker_to_job_def Let_def)


lemma query_job_None_iff: "query_job i db = None \<longleftrightarrow> i \<notin> Job_id ` set (jobs db)"
  by (auto simp: query_job_def find_None_iff)

lemma query_worker_None_iff: "query_worker i db = None \<longleftrightarrow> i \<notin> Worker_id ` set (workers db)"
  by (auto simp: query_worker_def find_None_iff)

lemma query_job_SomeD: "query_job i db = Some job \<Longrightarrow> job \<in> set (jobs db) \<and> Job_id job = i"
  by (auto simp: query_job_def find_Some_iff)

lemma query_worker_SomeD:
  "query_worker i db = Some w \<Longrightarrow> w \<in> set (workers db) \<and> Worker_id w = i"
  by (auto simp: query_worker_def find_Some_iff)

lemma response_status_simps [simp]:
  "response_status ok (Inl e) = error_status e"
  "response_status ok (Inr v) = ok"
  by (simp_all add: response_status_def)

lemma error_status_job_not_found [simp]: "error_status (job_not_found i) = 404"
  by (simp add: job_not_found_def)

lemma error_status_worker_not_found [simp]: "error_status (worker_not_found i) = 404"
  by (simp add: worker_not_found_def)

lemma error_status_database_error [simp]: "error_status database_error = 500"
  by (simp add: database_error_def)

lemma referential_integrity_iff:
  "referential_integrity db \<longleftrightarrow>
     (\<forall>w \<in> set (workers db). \<forall>j. Worker_job_id w = Some j \<longrightarrow> j \<in> Job_id ` set (jobs db))"
  by (auto simp: referential_integrity_def list_all_iff split: option.splits)

text \<open>The three outcomes of \<^verbatim>\<open>POST /jobs/\<close>: rejected by validation, refused by the store,
  or a new last row with the sequence's value as id.\<close>

lemma post_jobs_cases:
  "post_jobs body db = (Inl RequestValidationError, db)
   \<or> post_jobs body db = (Inl database_error, db\<lparr>jobs_id_seq := jobs_id_seq db + 1\<rparr>)
   \<or> (\<exists>job. JobCreate_validate body = Inr job \<and> jobs_id_seq db \<notin> Job_id ` set (jobs db) \<and>
        post_jobs body db =
          (Inr (joinedload
                 (db\<lparr>jobs_id_seq := jobs_id_seq db + 1,
                     jobs := jobs db @ [Job_of (jobs_id_seq db) job]\<rparr>)
                 (Job_of (jobs_id_seq db) job)),
           db\<lparr>jobs_id_seq := jobs_id_seq db + 1,
              jobs := jobs db @ [Job_of (jobs_id_seq db) job]\<rparr>))"
  by (auto simp: post_jobs_def create_job_def JobCreate_validate_def Let_def Job_of_def
      split: sum.splits if_splits)

section \<open>Listing jobs with an inverted date range\<close>

text \<open>Whatever the parameters, the handler's answer to an inverted date range is the
  \<^verbatim>\<open>AttributeError\<close>: status 500, and an \<open>Inl\<close> result carries no job list.\<close>

lemma get_jobs_inverted_date_range:
  "start_after > end_before \<Longrightarrow>
     get_jobs keyword status (Some start_after) (Some end_before) sort_by desc db
       = Inl (AttributeError (type_name status) ''HTTP_400_BAD_REQUEST'')
     \<and> response_status HTTP_200_OK
         (get_jobs keyword status (Some start_after) (Some end_before) sort_by desc db) = 500"
  by (simp add: get_jobs_def response_status_def)

text \<open>No request to \<^verbatim>\<open>GET /jobs/\<close> is answered with status 400: the answer is the list
  (200), the framework's validation error (422) or the unhandled exception (500).\<close>

lemma GET_jobs_never_400:
  "response_status HTTP_200_OK
     (GET_jobs keyword status start_after end_before sort_by desc db) \<noteq> 400"
  by (auto simp: GET_jobs_def get_jobs_def response_status_def Let_def
      split: option.splits if_splits)

text \<open>
  Claim C1. The claim asks that a request with both \<^verbatim>\<open>start_after\<close> and \<^verbatim>\<open>end_before\<close>
  given and \<^verbatim>\<open>start_after > end_before\<close> fail with status 400. The handler does reach the
  \<^verbatim>\<open>raise HTTPException(status_code=status.HTTP_400_BAD_REQUEST, ...)\<close>, but there
  \<^verbatim>\<open>status\<close> is the handler's own parameter, not the module of status codes, so the
  expression raises \<^verbatim>\<open>AttributeError\<close>: the request \<^verbatim>\<open>start_after\<close> = day 10,
  \<^verbatim>\<open>end_before\<close> = day 3 is answered with status 500 on every store, whether the
  \<^verbatim>\<open>status\<close> filter is absent or given. No job list is returned.
\<close>

theorem GET_jobs_inverted_date_range_500:
  "GET_jobs None None (Some 10) (Some 3) None False db
     = Inl (AttributeError ''NoneType'' ''HTTP_400_BAD_REQUEST'')
   \<and> response_status HTTP_200_OK (GET_jobs None None (Some 10) (Some 3) None False db) = 500
   \<and> GET_jobs None (Some ''Pending'') (Some 10) (Some 3) None False db
       = Inl (AttributeError ''str'' ''HTTP_400_BAD_REQUEST'')
   \<and> response_status HTTP_200_OK
       (GET_jobs None (Some ''Pending'') (Some 10) (Some 3) None False db) = 500"
  by (simp add: GET_jobs_def get_jobs_query_ok_def get_jobs_status_pattern_def get_jobs_def
      type_name_def response_status_def)

section \<open>Creating jobs\<close>

text \<open>
  Claim C2. The claim asks that a job with status \<^verbatim>\<open>"Pending"\<close> be created (201, empty
  workers list). The pattern of \<^verbatim>\<open>JobBase.status\<close> lists only \<^verbatim>\<open>In Progress\<close>,
  \<^verbatim>\<open>Completed\<close> and \<^verbatim>\<open>Cancelled\<close>, so the body \<^verbatim>\<open>{name: "A", customer: "B", status:
  "Pending"}\<close> is rejected by validation on every store: status 422, nothing written. The
  \<^verbatim>\<open>status\<close> filter of \<^verbatim>\<open>get_jobs\<close> does admit \<^verbatim>\<open>Pending\<close>.
\<close>

theorem post_jobs_status_Pending:
  "post_jobs \<lparr>JobCreate_name = ''A'', JobCreate_customer = ''B'', JobCreate_start_date = None,
              JobCreate_end_date = None, JobCreate_status = Some ''Pending''\<rparr> db
     = (Inl RequestValidationError, db)
   \<and> response_status HTTP_201_CREATED
       (fst (post_jobs \<lparr>JobCreate_name = ''A'', JobCreate_customer = ''B'',
                        JobCreate_start_date = None, JobCreate_end_date = None,
                        JobCreate_status = Some ''Pending''\<rparr> db)) = 422
   \<and> get_jobs_status_pattern ''Pending''"
  by (simp add: post_jobs_def JobCreate_validate_def length_ok_def JobBase_status_pattern_def
      response_status_def get_jobs_status_pattern_def)

text \<open>
  Claim C3. A body with \<^verbatim>\<open>end_date < start_date\<close> makes \<^verbatim>\<open>validate_dates\<close> raise while
  the request is validated, before \<^verbatim>\<open>create_job\<close> and its \<^verbatim>\<open>except ValueError\<close> clause
  (the one that would answer 400) are entered. The request fails with the validation
  status 422, not 400; no job is written.
\<close>

theorem post_jobs_end_before_start:
  "post_jobs \<lparr>JobCreate_name = ''A'', JobCreate_customer = ''B'', JobCreate_start_date = Some 2,
              JobCreate_end_date = Some 1, JobCreate_status = None\<rparr> db
     = (Inl RequestValidationError, db)
   \<and> response_status HTTP_201_CREATED
       (fst (post_jobs \<lparr>JobCreate_name = ''A'', JobCreate_customer = ''B'',
                        JobCreate_start_date = Some 2, JobCreate_end_date = Some 1,
                        JobCreate_status = None\<rparr> db)) = 422"
  by (simp add: post_jobs_def JobCreate_validate_def length_ok_def validate_dates_def
      response_status_def)

text \<open>The same for every body with inverted dates, and for every body with status
  \<^verbatim>\<open>Pending\<close>.\<close>

lemma post_jobs_inverted_dates:
  "JobCreate_start_date body = Some s \<Longrightarrow> JobCreate_end_date body = Some e \<Longrightarrow> e < s \<Longrightarrow>
     post_jobs body db = (Inl RequestValidationError, db)"
  by (simp add: post_jobs_def JobCreate_validate_def validate_dates_def)

lemma post_jobs_Pending:
  "JobCreate_status body = Some ''Pending'' \<Longrightarrow>
     post_jobs body db = (Inl RequestValidationError, db)"
  by (simp add: post_jobs_def JobCreate_validate_def JobBase_status_pattern_def
      split: sum.splits)

section \<open>Deleting jobs\<close>

text \<open>
  Claim C4. If a job with the given id exists, \<^verbatim>\<open>delete_job\<close> succeeds; the jobs left are
  exactly the jobs with another id, the workers left are exactly the workers whose
  \<^verbatim>\<open>job_id\<close> is not that id, both in their old order and unchanged, and the job can no
  longer be read. If no job has the id, it raises 404 and the store is the same.
\<close>

theorem delete_job_cascade:
  "(job_id \<in> Job_id ` set (jobs db) \<longrightarrow>
      fst (delete_job job_id db) = Inr ()
      \<and> jobs (snd (delete_job job_id db)) = filter (\<lambda>j. Job_id j \<noteq> job_id) (jobs db)
      \<and> workers (snd (delete_job job_id db))
          = filter (\<lambda>w. Worker_job_id w \<noteq> Some job_id) (workers db)
      \<and> jobs_id_seq (snd (delete_job job_id db)) = jobs_id_seq db
      \<and> workers_id_seq (snd (delete_job job_id db)) = workers_id_seq db
      \<and> get_job_by_id job_id (snd (delete_job job_id db)) = Inl (job_not_found job_id))
   \<and> (job_id \<notin> Job_id ` set (jobs db) \<longrightarrow>
        delete_job job_id db = (Inl (job_not_found job_id), db)
        \<and> response_status HTTP_204_NO_CONTENT (fst (delete_job job_id db)) = 404)"
proof (cases "query_job job_id db")
  case None
  then have "job_id \<notin> Job_id ` set (jobs db)" by (simp add: query_job_None_iff)
  with None show ?thesis
    by (simp add: delete_job_def)
next
  case (Some job)
  from query_job_SomeD[OF Some] have job: "job \<in> set (jobs db)" "Job_id job = job_id"
    by simp_all
  then have ex: "job_id \<in> Job_id ` set (jobs db)" by force
  have "query_job job_id (snd (delete_job job_id db)) = None"
    using Some job by (auto simp: delete_job_def query_job_None_iff)
  with Some job ex show ?thesis
    by (simp add: delete_job_def get_job_by_id_def)
qed

theorem delete_job_cascade_witness:
  "1 \<in> Job_id ` set (jobs example_store)
   \<and> fst (delete_job 1 example_store) = Inr ()
   \<and> map Job_id (jobs (snd (delete_job 1 example_store))) = [2]
   \<and> map Worker_id (workers (snd (delete_job 1 example_store))) = [2]
   \<and> 7 \<notin> Job_id ` set (jobs example_store)
   \<and> delete_job 7 example_store = (Inl (job_not_found 7), example_store)
   \<and> response_status HTTP_204_NO_CONTENT (fst (delete_job 7 example_store)) = 404"
proof -
  have h1: "1 \<in> Job_id ` set (jobs example_store)"
    and h7: "7 \<notin> Job_id ` set (jobs example_store)"
    by (simp_all add: example_store_simps)
  note present = delete_job_cascade[of 1 example_store, THEN conjunct1, rule_format, OF h1]
  note absent = delete_job_cascade[of 7 example_store, THEN conjunct2, rule_format, OF h7]
  from present have "fst (delete_job 1 example_store) = Inr ()"
    and "map Job_id (jobs (snd (delete_job 1 example_store))) = [2]"
    and "map Worker_id (workers (snd (delete_job 1 example_store))) = [2]"
    by (simp_all add: example_store_simps)
  with h1 h7 absent show ?thesis by simp
qed

section \<open>Referential integrity\<close>

lemma referential_integrity_post_jobs:
  "referential_integrity db \<Longrightarrow> referential_integrity (snd (post_jobs body db))"
  using post_jobs_cases[of body db]
  by (auto simp: referential_integrity_iff)

lemma referential_integrity_delete_job:
  assumes inv: "referential_integrity db"
  shows "referential_integrity (snd (delete_job job_id db))"
proof (cases "query_job job_id db")
  case None
  with inv show ?thesis by (simp add: delete_job_def)
next
  case (Some job)
  have "j \<in> Job_id ` set (filter (\<lambda>x. Job_id x \<noteq> Job_id job) (jobs db))"
    if "w \<in> set (workers db)" "Worker_job_id w = Some j" "j \<noteq> Job_id job" for w j
  proof -
    from that inv obtain x where "x \<in> set (jobs db)" "Job_id x = j"
      by (auto simp: referential_integrity_iff)
    with that(3) show ?thesis by force
  qed
  with Some show ?thesis
    by (auto simp: referential_integrity_iff delete_job_def)
qed

lemma referential_integrity_post_workers:
  "referential_integrity db \<Longrightarrow> referential_integrity (snd (post_workers body db))"
  by (auto simp: referential_integrity_iff post_workers_def create_worker_def insert_worker_def
      Worker_of_def Let_def WorkerCreate_validate_def split: sum.splits option.splits if_splits)

lemma referential_integrity_assign:
  "referential_integrity db \<Longrightarrow>
     referential_integrity (snd (assign_worker_to_job worker_id job_id db))"
  by (auto simp: referential_integrity_iff assign_worker_to_job_def
      dest!: query_job_SomeD split: option.splits if_splits)

lemma referential_integrity_handle:
  "referential_integrity db \<Longrightarrow> referential_integrity (handle r db)"
  by (cases r)
    (simp_all add: referential_integrity_post_jobs referential_integrity_delete_job
      referential_integrity_post_workers referential_integrity_assign)

lemma referential_integrity_run:
  "referential_integrity db \<Longrightarrow> referential_integrity (run rs db)"
  by (induction rs arbitrary: db) (simp_all add: referential_integrity_handle)

lemma referential_integrity_empty: "referential_integrity empty_store"
  by (simp add: referential_integrity_def empty_store_def)

text \<open>
  Claim C5. After any sequence of create-job, create-worker, assign-worker and delete-job
  requests on the empty database, every worker whose \<^verbatim>\<open>job_id\<close> is set refers to a job
  that is in the store.
\<close>

theorem referential_integrity_reachable:
  "w \<in> set (workers (run rs empty_store)) \<Longrightarrow> Worker_job_id w = Some j \<Longrightarrow>
     \<exists>job \<in> set (jobs (run rs empty_store)). Job_id job = j"
  using referential_integrity_run[OF referential_integrity_empty, of rs]
  by (auto simp: referential_integrity_iff)

theorem referential_integrity_reachable_witness:
  "\<lparr>Worker_id = 2, Worker_name = ''V'', Worker_role = ''Q'', Worker_job_id = Some 2\<rparr>
     \<in> set (workers (run example_requests empty_store))
   \<and> Worker_job_id \<lparr>Worker_id = 2, Worker_name = ''V'', Worker_role = ''Q'',
                     Worker_job_id = Some 2\<rparr> = Some 2
   \<and> (\<exists>job \<in> set (jobs (run example_requests empty_store)). Job_id job = 2)"
  using referential_integrity_reachable
    [of "\<lparr>Worker_id = 2, Worker_name = ''V'', Worker_role = ''Q'', Worker_job_id = Some 2\<rparr>"
        example_requests 2]
  by (simp add: run_example_requests example_store_simps)

section \<open>Assigning workers\<close>

lemma find_map_update:
  "find (\<lambda>x. Worker_id x = i)
     (map (\<lambda>x. if Worker_id x = i then x\<lparr>Worker_job_id := v\<rparr> else x) ws)
   = map_option (\<lambda>x. x\<lparr>Worker_job_id := v\<rparr>) (find (\<lambda>x. Worker_id x = i) ws)"
  by (induction ws) auto

text \<open>
  Claim C6. If no worker has \<^verbatim>\<open>worker_id\<close> or no job has \<^verbatim>\<open>job_id\<close>,
  \<^verbatim>\<open>assign_worker_to_job\<close> raises an exception with status 404 and the store is the same.
  If both exist, it returns the worker found with its \<^verbatim>\<open>job_id\<close> set to the given id,
  and that is the row read back under \<^verbatim>\<open>worker_id\<close> from the new store.
\<close>

theorem assign_worker_to_job_result:
  "(worker_id \<notin> Worker_id ` set (workers db) \<or> job_id \<notin> Job_id ` set (jobs db) \<longrightarrow>
      snd (assign_worker_to_job worker_id job_id db) = db
      \<and> (\<exists>e. fst (assign_worker_to_job worker_id job_id db) = Inl e \<and> error_status e = 404)
      \<and> response_status HTTP_200_OK (fst (assign_worker_to_job worker_id job_id db)) = 404)
   \<and> (worker_id \<in> Worker_id ` set (workers db) \<and> job_id \<in> Job_id ` set (jobs db) \<longrightarrow>
        (\<exists>w. query_worker worker_id db = Some w
           \<and> fst (assign_worker_to_job worker_id job_id db)
               = Inr (w\<lparr>Worker_job_id := Some job_id\<rparr>)
           \<and> query_worker worker_id (snd (assign_worker_to_job worker_id job_id db))
               = Some (w\<lparr>Worker_job_id := Some job_id\<rparr>)))"
proof (cases "query_worker worker_id db")
  case None
  then have "worker_id \<notin> Worker_id ` set (workers db)" by (simp add: query_worker_None_iff)
  with None show ?thesis
    by (simp add: assign_worker_to_job_def)
next
  case w: (Some w)
  from query_worker_SomeD[OF w] have wid: "worker_id \<in> Worker_id ` set (workers db)" by force
  show ?thesis
  proof (cases "query_job job_id db")
    case None
    then have "job_id \<notin> Job_id ` set (jobs db)" by (simp add: query_job_None_iff)
    with None w show ?thesis
      by (simp add: assign_worker_to_job_def)
  next
    case j: (Some job)
    from query_job_SomeD[OF j] have jid: "job_id \<in> Job_id ` set (jobs db)" by force
    from query_worker_SomeD[OF w] have "Worker_id w = worker_id" by simp
    with w j wid jid show ?thesis
      using find_map_update[of worker_id "Some job_id" "workers db"]
      by (simp add: assign_worker_to_job_def query_worker_def)
  qed
qed

theorem assign_worker_to_job_result_witness:
  "9 \<notin> Worker_id ` set (workers example_store)
   \<and> snd (assign_worker_to_job 9 1 example_store) = example_store
   \<and> response_status HTTP_200_OK (fst (assign_worker_to_job 9 1 example_store)) = 404
   \<and> 1 \<in> Worker_id ` set (workers example_store) \<and> 2 \<in> Job_id ` set (jobs example_store)
   \<and> fst (assign_worker_to_job 1 2 example_store)
       = Inr \<lparr>Worker_id = 1, Worker_name = ''W'', Worker_role = ''R'', Worker_job_id = Some 2\<rparr>
   \<and> query_worker 1 (snd (assign_worker_to_job 1 2 example_store))
       = Some \<lparr>Worker_id = 1, Worker_name = ''W'', Worker_role = ''R'', Worker_job_id = Some 2\<rparr>"
proof -
  have h9: "9 \<notin> Worker_id ` set (workers example_store) \<or> 1 \<notin> Job_id ` set (jobs example_store)"
    and h12: "1 \<in> Worker_id ` set (workers example_store) \<and> 2 \<in> Job_id ` set (jobs example_store)"
    by (simp_all add: example_store_simps)
  note absent = assign_worker_to_job_result
    [of 9 example_store 1, THEN conjunct1, rule_format, OF h9]
  note present = assign_worker_to_job_result
    [of 1 example_store 2, THEN conjunct2, rule_format, OF h12]
  have "query_worker 1 example_store
          = Some \<lparr>Worker_id = 1, Worker_name = ''W'', Worker_role = ''R'', Worker_job_id = Some 1\<rparr>"
    by (simp add: query_worker_def example_store_simps)
  with present have "fst (assign_worker_to_job 1 2 example_store)
       = Inr \<lparr>Worker_id = 1, Worker_name = ''W'', Worker_role = ''R'', Worker_job_id = Some 2\<rparr>"
    and "query_worker 1 (snd (assign_worker_to_job 1 2 example_store))
       = Some \<lparr>Worker_id = 1, Worker_name = ''W'', Worker_role = ''R'', Worker_job_id = Some 2\<rparr>"
    by auto
  with absent h12 show ?thesis by (simp add: example_store_simps)
qed

text \<open>
  Claim C9. A successful \<^verbatim>\<open>assign_worker_to_job\<close> leaves the jobs and both sequences as
  they were and keeps the number and order of the workers; every worker row keeps its id,
  name and role; a row with another id is unchanged, and the row with the given id differs
  from the old one in \<^verbatim>\<open>job_id\<close> only. The worker returned is that row.
\<close>

theorem assign_worker_to_job_frame:
  assumes "assign_worker_to_job worker_id job_id db = (Inr w', db')"
  shows "jobs db' = jobs db \<and> jobs_id_seq db' = jobs_id_seq db
     \<and> workers_id_seq db' = workers_id_seq db
     \<and> length (workers db') = length (workers db)
     \<and> (\<forall>i < length (workers db).
          Worker_id (workers db' ! i) = Worker_id (workers db ! i)
          \<and> Worker_name (workers db' ! i) = Worker_name (workers db ! i)
          \<and> Worker_role (workers db' ! i) = Worker_role (workers db ! i)
          \<and> (if Worker_id (workers db ! i) = worker_id
              then workers db' ! i = (workers db ! i)\<lparr>Worker_job_id := Some job_id\<rparr>
              else workers db' ! i = workers db ! i))
     \<and> (\<exists>w. query_worker worker_id db = Some w \<and> w' = w\<lparr>Worker_job_id := Some job_id\<rparr>
          \<and> Worker_id w' = worker_id \<and> Worker_name w' = Worker_name w
          \<and> Worker_role w' = Worker_role w)"
proof -
  from assms obtain w job where w: "query_worker worker_id db = Some w"
    and j: "query_job job_id db = Some job"
    by (auto simp: assign_worker_to_job_def split: option.splits)
  from query_worker_SomeD[OF w] have wid: "Worker_id w = worker_id" by simp
  from assms w j wid have w': "w' = w\<lparr>Worker_job_id := Some job_id\<rparr>"
    and db': "db' = db\<lparr>workers := map (\<lambda>x. if Worker_id x = worker_id
                         then x\<lparr>Worker_job_id := Some job_id\<rparr> else x) (workers db)\<rparr>"
    by (auto simp: assign_worker_to_job_def)
  show ?thesis using w wid by (simp add: w' db')
qed

theorem assign_worker_to_job_frame_witness:
  "assign_worker_to_job 1 2 example_store
     = (Inr \<lparr>Worker_id = 1, Worker_name = ''W'', Worker_role = ''R'', Worker_job_id = Some 2\<rparr>,
        example_store\<lparr>workers :=
          [\<lparr>Worker_id = 1, Worker_name = ''W'', Worker_role = ''R'', Worker_job_id = Some 2\<rparr>,
           \<lparr>Worker_id = 2, Worker_name = ''V'', Worker_role = ''Q'', Worker_job_id = Some 2\<rparr>]\<rparr>)
   \<and> jobs (snd (assign_worker_to_job 1 2 example_store)) = jobs example_store
   \<and> workers (snd (assign_worker_to_job 1 2 example_store)) ! 1 = workers example_store ! 1
   \<and> Worker_name (workers (snd (assign_worker_to_job 1 2 example_store)) ! 0) = ''W''
   \<and> Worker_role (workers (snd (assign_worker_to_job 1 2 example_store)) ! 0) = ''R''"
proof -
  have run: "assign_worker_to_job 1 2 example_store
     = (Inr \<lparr>Worker_id = 1, Worker_name = ''W'', Worker_role = ''R'', Worker_job_id = Some 2\<rparr>,
        example_store\<lparr>workers :=
          [\<lparr>Worker_id = 1, Worker_name = ''W'', Worker_role = ''R'', Worker_job_id = Some 2\<rparr>,
           \<lparr>Worker_id = 2, Worker_name = ''V'', Worker_role = ''Q'', Worker_job_id = Some 2\<rparr>]\<rparr>)"
    by (simp add: assign_worker_to_job_def query_worker_def query_job_def example_store_simps)
  note frame = assign_worker_to_job_frame[OF run]
  from frame have "jobs (snd (assign_worker_to_job 1 2 example_store)) = jobs example_store"
    by (simp add: run)
  moreover from frame
  have "workers (snd (assign_worker_to_job 1 2 example_store)) ! 1 = workers example_store ! 1"
    by (simp add: run example_store_simps)
  moreover from frame
  have "Worker_name (workers (snd (assign_worker_to_job 1 2 example_store)) ! 0) = ''W''"
    and "Worker_role (workers (snd (assign_worker_to_job 1 2 example_store)) ! 0) = ''R''"
    by (simp_all add: run example_store_simps)
  ultimately show ?thesis using run by simp
qed

section \<open>Creating workers\<close>

text \<open>
  Claim C8. The claim asks for 404 whenever \<^verbatim>\<open>job_id\<close> is given and no job has that id.
  For \<^verbatim>\<open>job_id = 0\<close> the test \<^verbatim>\<open>if worker.job_id:\<close> is false, the job is not looked up,
  and the insert is refused by the foreign key: the body \<^verbatim>\<open>{name: "W", role: "R",
  job_id: 0}\<close> is answered with status 500 on the empty database, where no job has id 0.
  \<^verbatim>\<open>assign_worker_to_job\<close> does answer 404 for the job id 0.
\<close>

theorem post_workers_job_id_zero:
  "post_workers \<lparr>WorkerCreate_name = ''W'', WorkerCreate_role = ''R'',
                 WorkerCreate_job_id = Some 0\<rparr> empty_store
     = (Inl database_error, empty_store\<lparr>workers_id_seq := 2\<rparr>)
   \<and> response_status HTTP_201_CREATED
       (fst (post_workers \<lparr>WorkerCreate_name = ''W'', WorkerCreate_role = ''R'',
                           WorkerCreate_job_id = Some 0\<rparr> empty_store)) = 500
   \<and> query_job 0 empty_store = None
   \<and> fst (assign_worker_to_job 1 0 example_store) = Inl (job_not_found 0)"
  by (simp add: post_workers_def WorkerCreate_validate_def length_ok_def create_worker_def
      insert_worker_def Worker_of_def query_job_def query_worker_def empty_store_def
      assign_worker_to_job_def example_store_simps)

text \<open>For every other id the handler does what the claim says: 404 and the same store when
  no job has the id; the zero id is refused by the store whenever no job has it.\<close>

lemma create_worker_job_absent:
  "WorkerCreate_job_id worker = Some j \<Longrightarrow> j \<noteq> 0 \<Longrightarrow> j \<notin> Job_id ` set (jobs db) \<Longrightarrow>
     create_worker worker db = (Inl (job_not_found j), db)"
  by (simp add: create_worker_def query_job_None_iff)

lemma create_worker_job_zero_absent:
  "WorkerCreate_job_id worker = Some 0 \<Longrightarrow> 0 \<notin> Job_id ` set (jobs db) \<Longrightarrow>
     create_worker worker db
       = (Inl database_error, db\<lparr>workers_id_seq := workers_id_seq db + 1\<rparr>)"
  by (auto simp: create_worker_def insert_worker_def Worker_of_def Let_def)

section \<open>Listing workers\<close>

lemma filter_job_id_zero_differs:
  assumes "\<exists>w \<in> set (workers db). Worker_job_id w \<noteq> Some 0"
  shows "workers db \<noteq> filter (\<lambda>w. Worker_job_id w = Some 0) (workers db)"
proof
  assume eq: "workers db = filter (\<lambda>w. Worker_job_id w = Some 0) (workers db)"
  have "\<forall>w \<in> set (workers db). Worker_job_id w = Some 0"
  proof
    fix w assume "w \<in> set (workers db)"
    then have "w \<in> set (filter (\<lambda>w. Worker_job_id w = Some 0) (workers db))"
      using eq by metis
    then show "Worker_job_id w = Some 0" by simp
  qed
  with assms show False by blast
qed

text \<open>
  Claim C10. With the \<^verbatim>\<open>job_id\<close> filter equal to 0, \<^verbatim>\<open>get_workers\<close> returns what it
  returns without a \<^verbatim>\<open>job_id\<close> filter; with no other filter that is every worker of the
  store; whenever some worker's \<^verbatim>\<open>job_id\<close> is not 0, that differs from the list of the
  workers whose \<^verbatim>\<open>job_id\<close> is 0.
\<close>

theorem get_workers_job_id_zero:
  "get_workers name role (Some 0) db = get_workers name role None db
   \<and> get_workers None None (Some 0) db = workers db
   \<and> ((\<exists>w \<in> set (workers db). Worker_job_id w \<noteq> Some 0) \<longrightarrow>
        get_workers None None (Some 0) db
          \<noteq> filter (\<lambda>w. Worker_job_id w = Some 0) (workers db))"
proof -
  have same: "get_workers name role (Some 0) db = get_workers name role None db"
    by (simp add: get_workers_def)
  have all: "get_workers None None (Some 0) db = workers db"
    by (simp add: get_workers_def)
  show ?thesis
    unfolding all using same filter_job_id_zero_differs[of db] by blast
qed

theorem get_workers_job_id_zero_witness:
  "get_workers None None (Some 0) example_store = workers example_store
   \<and> map Worker_id (get_workers None None (Some 0) example_store) = [1, 2]
   \<and> (\<exists>w \<in> set (workers example_store). Worker_job_id w \<noteq> Some 0)
   \<and> filter (\<lambda>w. Worker_job_id w = Some 0) (workers example_store) = []
   \<and> get_workers None None (Some 0) example_store
       \<noteq> filter (\<lambda>w. Worker_job_id w = Some 0) (workers example_store)"
proof -
  note zero = get_workers_job_id_zero[of None None example_store]
  have ex: "\<exists>w \<in> set (workers example_store). Worker_job_id w \<noteq> Some 0"
    by (simp add: example_store_simps)
  from zero have all: "get_workers None None (Some 0) example_store = workers example_store"
    by blast
  from zero ex have "get_workers None None (Some 0) example_store
       \<noteq> filter (\<lambda>w. Worker_job_id w = Some 0) (workers example_store)"
    by blast
  with ex all show ?thesis by (simp add: example_store_simps)
qed

section \<open>Analytics\<close>

lemma sum_group_by_count: "sum_list (map snd (group_by_count xs)) = length xs"
  by (simp add: group_by_count_def comp_def sum_list_distinct_conv_sum_set sum_count_set)

lemma dict_set_fresh: "k \<notin> fst ` set d \<Longrightarrow> dict_set k v d = d @ [(k, v)]"
  by (induction d) auto

lemma foldl_dict_set_distinct:
  "distinct (map fst (d @ kvs)) \<Longrightarrow>
     foldl (\<lambda>d kv. dict_set (fst kv) (snd kv) d) d kvs = d @ kvs"
proof (induction kvs arbitrary: d)
  case Nil
  then show ?case by simp
next
  case (Cons kv kvs)
  have fresh: "fst kv \<notin> fst ` set d" using Cons.prems by auto
  have "distinct (map fst ((d @ [kv]) @ kvs))" using Cons.prems by simp
  from Cons.IH[OF this] show ?case by (simp add: dict_set_fresh[OF fresh])
qed

text \<open>Pairs with pairwise different keys make a dictionary with exactly those items.\<close>

lemma dict_distinct: "distinct (map fst kvs) \<Longrightarrow> dict kvs = kvs"
  using foldl_dict_set_distinct[of "[]" kvs] by (simp add: dict_def)

lemma dict_group_by_count: "dict (group_by_count xs) = group_by_count xs"
  by (rule dict_distinct) (simp add: group_by_count_def comp_def)

text \<open>The statuses that \<^verbatim>\<open>POST /jobs/\<close> lets into the table stay valid under every
  request.\<close>

lemma statuses_valid_post_jobs:
  "statuses_valid db \<Longrightarrow> statuses_valid (snd (post_jobs body db))"
  by (auto simp: statuses_valid_def post_jobs_def create_job_def JobCreate_validate_def Let_def
      Job_of_def split: sum.splits if_splits option.splits)

lemma statuses_valid_delete_job:
  "statuses_valid db \<Longrightarrow> statuses_valid (snd (delete_job i db))"
  by (auto simp: statuses_valid_def delete_job_def list_all_iff split: option.splits)

lemma jobs_post_workers: "jobs (snd (post_workers body db)) = jobs db"
  by (auto simp: post_workers_def create_worker_def insert_worker_def Let_def
      split: sum.splits option.splits)

lemma jobs_assign: "jobs (snd (assign_worker_to_job w j db)) = jobs db"
  by (auto simp: assign_worker_to_job_def split: option.splits)

lemma statuses_valid_handle: "statuses_valid db \<Longrightarrow> statuses_valid (handle r db)"
  by (cases r)
    (simp_all add: statuses_valid_post_jobs statuses_valid_delete_job,
     simp_all add: statuses_valid_def jobs_post_workers jobs_assign)

lemma statuses_valid_run: "statuses_valid db \<Longrightarrow> statuses_valid (run rs db)"
  by (induction rs arbitrary: db) (simp_all add: statuses_valid_handle)

lemma statuses_valid_empty: "statuses_valid empty_store"
  by (simp add: statuses_valid_def empty_store_def)

text \<open>On valid statuses the dictionary key is one-to-one: only null becomes
  \<^verbatim>\<open>"Unspecified"\<close>.\<close>

lemma status_key_inj_on:
  assumes "statuses_valid db"
  shows "inj_on status_key (set (map Job_status (jobs db)))"
proof (rule inj_onI)
  fix a b
  assume a: "a \<in> set (map Job_status (jobs db))" and b: "b \<in> set (map Job_status (jobs db))"
    and eq: "status_key a = status_key b"
  have ok: "x = None \<or> (\<exists>s. x = Some s \<and> JobBase_status_pattern s)"
    if "x \<in> set (map Job_status (jobs db))" for x
    using that assms by (auto simp: statuses_valid_def list_all_iff split: option.splits)
  from ok[OF a] ok[OF b] eq show "a = b"
    by (auto simp: status_key_def JobBase_status_pattern_def)
qed

lemma status_key_Unspecified:
  assumes "statuses_valid db" and "st \<in> set (map Job_status (jobs db))"
  shows "status_key st = ''Unspecified'' \<longleftrightarrow> st = None"
  using assms
  by (auto simp: status_key_def statuses_valid_def list_all_iff JobBase_status_pattern_def
      split: option.splits)

lemma jobs_by_status_valid:
  assumes "statuses_valid db"
  shows "jobs_by_status (get_analytics db) =
           map (\<lambda>st. (status_key st, count_list (map Job_status (jobs db)) st))
             (remdups (map Job_status (jobs db)))"
proof -
  have "distinct (map status_key (remdups (map Job_status (jobs db))))"
    using status_key_inj_on[OF assms] by (simp add: distinct_map)
  then have "distinct (map fst (map (\<lambda>(status, count). (status_key status, count))
                (group_by_count (map Job_status (jobs db)))))"
    by (simp add: group_by_count_def comp_def)
  from dict_distinct[OF this] show ?thesis
    by (simp add: get_analytics_def group_by_count_def comp_def)
qed

lemma total_jobs_sum:
  assumes "statuses_valid db"
  shows "total_jobs (get_analytics db) = sum_list (map snd (jobs_by_status (get_analytics db)))"
proof -
  have "sum_list (map snd (jobs_by_status (get_analytics db)))
          = sum_list (map snd (group_by_count (map Job_status (jobs db))))"
    by (simp add: jobs_by_status_valid[OF assms] group_by_count_def comp_def)
  then show ?thesis
    by (simp add: sum_group_by_count) (simp add: get_analytics_def)
qed

lemma total_workers_sum:
  "total_workers (get_analytics db) = sum_list (map snd (workers_by_role (get_analytics db)))"
proof -
  have "workers_by_role (get_analytics db) = group_by_count (map Worker_role (workers db))"
    by (simp add: get_analytics_def dict_group_by_count)
  then show ?thesis
    by (simp add: sum_group_by_count) (simp add: get_analytics_def)
qed

lemma map_of_keyed:
  "inj_on f (set xs) \<Longrightarrow> x \<in> set xs \<Longrightarrow>
     map_of (map (\<lambda>k. (f k, g k)) xs) (f x) = Some (g x)"
  by (induction xs) (auto simp: inj_on_def)

lemma count_list_map_eq: "count_list (map f xs) y = length (filter (\<lambda>x. f x = y) xs)"
  by (induction xs) auto

lemma unspecified_count:
  assumes valid: "statuses_valid db"
  shows "map_of (jobs_by_status (get_analytics db)) ''Unspecified'' =
           (if None \<in> set (map Job_status (jobs db))
            then Some (length (filter (\<lambda>j. Job_status j = None) (jobs db))) else None)"
proof (cases "None \<in> set (map Job_status (jobs db))")
  case True
  then have "None \<in> set (remdups (map Job_status (jobs db)))" by simp
  from map_of_keyed[of status_key _ None "count_list (map Job_status (jobs db))", OF _ this]
    status_key_inj_on[OF valid]
  have "map_of (jobs_by_status (get_analytics db)) (status_key None)
          = Some (count_list (map Job_status (jobs db)) None)"
    by (simp add: jobs_by_status_valid[OF valid])
  with True show ?thesis by (simp add: status_key_def count_list_map_eq)
next
  case False
  have "''Unspecified'' \<notin> status_key ` set (map Job_status (jobs db))"
  proof
    assume "''Unspecified'' \<in> status_key ` set (map Job_status (jobs db))"
    then obtain st where st: "st \<in> set (map Job_status (jobs db))"
      and "status_key st = ''Unspecified''" by force
    with status_key_Unspecified[OF valid st] False show False by simp
  qed
  then have "map_of (jobs_by_status (get_analytics db)) ''Unspecified'' = None"
    by (simp add: jobs_by_status_valid[OF valid] map_of_eq_None_iff comp_def image_image)
  with False show ?thesis by simp
qed

text \<open>
  Claim C7. In every state the service reaches from the empty database, the analytics
  satisfy: \<^verbatim>\<open>total_jobs\<close> is the sum of the counts of \<^verbatim>\<open>jobs_by_status\<close>,
  \<^verbatim>\<open>total_workers\<close> is the sum of the counts of \<^verbatim>\<open>workers_by_role\<close>, and the entry
  \<^verbatim>\<open>"Unspecified"\<close> counts exactly the jobs whose status is null (there is no such entry when
  there is no such job).
\<close>

theorem analytics_totals:
  "total_jobs (get_analytics (run rs empty_store))
     = sum_list (map snd (jobs_by_status (get_analytics (run rs empty_store))))
   \<and> total_workers (get_analytics (run rs empty_store))
     = sum_list (map snd (workers_by_role (get_analytics (run rs empty_store))))
   \<and> map_of (jobs_by_status (get_analytics (run rs empty_store))) ''Unspecified''
     = (if None \<in> set (map Job_status (jobs (run rs empty_store)))
        then Some (length (filter (\<lambda>j. Job_status j = None) (jobs (run rs empty_store))))
        else None)"
  using total_jobs_sum[OF statuses_valid_run[OF statuses_valid_empty, of rs]]
    total_workers_sum[of "run rs empty_store"]
    unspecified_count[OF statuses_valid_run[OF statuses_valid_empty, of rs]]
  by simp

theorem analytics_totals_witness:
  "get_analytics (run example_requests empty_store)
     = \<lparr>total_jobs = 2, jobs_by_status = [(''In Progress'', 1), (''Unspecified'', 1)],
        total_workers = 2, workers_by_role = [(''R'', 1), (''Q'', 1)]\<rparr>
   \<and> total_jobs (get_analytics (run example_requests empty_store))
     = sum_list (map snd (jobs_by_status (get_analytics (run example_requests empty_store))))
   \<and> total_workers (get_analytics (run example_requests empty_store))
     = sum_list (map snd (workers_by_role (get_analytics (run example_requests empty_store))))
   \<and> map_of (jobs_by_status (get_analytics (run example_requests empty_store))) ''Unspecified''
     = Some 1"
proof -
  have val: "get_analytics (run example_requests empty_store)
     = \<lparr>total_jobs = 2, jobs_by_status = [(''In Progress'', 1), (''Unspecified'', 1)],
        total_workers = 2, workers_by_role = [(''R'', 1), (''Q'', 1)]\<rparr>"
    by (simp add: run_example_requests get_analytics_def example_store_simps
        group_by_count_def dict_def status_key_def)
  from analytics_totals[of example_requests] show ?thesis
    by (simp add: val)
qed

text \<open>The invariant on the statuses is what the first equation rests on: in a table that
  holds an empty status next to a null one, both groups get the key \<^verbatim>\<open>"Unspecified"\<close>
  and the dictionary keeps one of the two counts. No request writes such a row.\<close>

lemma invalid_status_merges_groups:
  "total_jobs (get_analytics
      (empty_store\<lparr>jobs := [Job_of 1 (job_C\<lparr>JobCreate_status := None\<rparr>),
                            Job_of 2 (job_C\<lparr>JobCreate_status := Some []\<rparr>)]\<rparr>)) = 2
   \<and> jobs_by_status (get_analytics
      (empty_store\<lparr>jobs := [Job_of 1 (job_C\<lparr>JobCreate_status := None\<rparr>),
                            Job_of 2 (job_C\<lparr>JobCreate_status := Some []\<rparr>)]\<rparr>))
     = [(''Unspecified'', 1)]"
  by (simp add: get_analytics_def empty_store_def Job_of_def job_C_def group_by_count_def
      dict_def status_key_def)

section \<open>Primary keys\<close>

lemma keys_fresh_iff:
  "keys_fresh db \<longleftrightarrow>
     distinct (map Job_id (jobs db)) \<and> distinct (map Worker_id (workers db))
     \<and> (\<forall>j \<in> set (jobs db). Job_id j < jobs_id_seq db)
     \<and> (\<forall>w \<in> set (workers db). Worker_id w < workers_id_seq db)"
  by (simp add: keys_fresh_def list_all_iff)

lemma keys_fresh_post_jobs: "keys_fresh db \<Longrightarrow> keys_fresh (snd (post_jobs body db))"
  using post_jobs_cases[of body db]
  by (auto simp: keys_fresh_iff Job_of_def) force+

lemma keys_fresh_delete_job: "keys_fresh db \<Longrightarrow> keys_fresh (snd (delete_job i db))"
  by (auto simp: keys_fresh_iff delete_job_def distinct_map_filter split: option.splits)

lemma keys_fresh_post_workers: "keys_fresh db \<Longrightarrow> keys_fresh (snd (post_workers body db))"
  by (auto simp: keys_fresh_iff post_workers_def create_worker_def insert_worker_def
      Worker_of_def Let_def WorkerCreate_validate_def
      split: sum.splits option.splits if_splits)

lemma map_Worker_id_update:
  "map (Worker_id \<circ> (\<lambda>w. if Worker_id w = i then w\<lparr>Worker_job_id := v\<rparr> else w)) ws
     = map Worker_id ws"
  by (induction ws) auto

lemma keys_fresh_assign:
  "keys_fresh db \<Longrightarrow> keys_fresh (snd (assign_worker_to_job worker_id job_id db))"
  by (auto simp: keys_fresh_iff assign_worker_to_job_def map_Worker_id_update
      split: option.splits if_splits)

lemma keys_fresh_handle: "keys_fresh db \<Longrightarrow> keys_fresh (handle r db)"
  by (cases r)
    (simp_all add: keys_fresh_post_jobs keys_fresh_delete_job keys_fresh_post_workers
      keys_fresh_assign)

lemma keys_fresh_run: "keys_fresh db \<Longrightarrow> keys_fresh (run rs db)"
  by (induction rs arbitrary: db) (simp_all add: keys_fresh_handle)

lemma keys_fresh_empty: "keys_fresh empty_store"
  by (simp add: keys_fresh_def empty_store_def)

text \<open>
  In every state reached from the empty database the ids of each table are pairwise
  different and smaller than the next value of the table's sequence, so an insert never
  meets a duplicate key.
\<close>

theorem keys_fresh_reachable: "keys_fresh (run rs empty_store)"
  by (rule keys_fresh_run[OF keys_fresh_empty])

theorem keys_fresh_reachable_witness:
  "keys_fresh example_store
   \<and> map Job_id (jobs (run example_requests empty_store)) = [1, 2]
   \<and> jobs_id_seq (run example_requests empty_store) = 3"
  using keys_fresh_reachable[of example_requests]
  by (simp add: run_example_requests example_store_simps)

section \<open>What a valid request creates\<close>

lemma JobCreate_validate_ok:
  assumes "length_ok (JobCreate_name body)" and "length_ok (JobCreate_customer body)"
    and "JobCreate_status body
           \<in> {None, Some ''In Progress'', Some ''Completed'', Some ''Cancelled''}"
    and "case (JobCreate_start_date body, JobCreate_end_date body) of
           (Some s, Some e) \<Rightarrow> s \<le> e | _ \<Rightarrow> True"
  shows "JobCreate_validate body = Inr body"
  using assms
  by (auto simp: JobCreate_validate_def JobBase_status_pattern_def validate_dates_def
      split: option.splits)

lemma create_job_created:
  assumes fresh: "keys_fresh db" and ri: "referential_integrity db"
  shows "create_job job db =
           (Inr \<lparr>JobResponse_job = Job_of (jobs_id_seq db) job, JobResponse_workers = []\<rparr>,
            db\<lparr>jobs_id_seq := jobs_id_seq db + 1,
               jobs := jobs db @ [Job_of (jobs_id_seq db) job]\<rparr>)"
proof -
  have new: "jobs_id_seq db \<notin> Job_id ` set (jobs db)"
    using fresh by (auto simp: keys_fresh_iff)
  have "Worker_job_id w \<noteq> Some (jobs_id_seq db)" if "w \<in> set (workers db)" for w
    using that ri new by (auto simp: referential_integrity_iff)
  then have "filter (\<lambda>w. Worker_job_id w = Some (jobs_id_seq db)) (workers db) = []"
    by (simp add: filter_empty_conv)
  with new show ?thesis
    by (simp add: create_job_def Let_def joinedload_def Job_workers_def Job_of_def)
qed

text \<open>
  A body that meets the field constraints (names of 1 to 100 characters, a status that is
  absent or one of \<^verbatim>\<open>In Progress\<close>, \<^verbatim>\<open>Completed\<close>, \<^verbatim>\<open>Cancelled\<close>, dates in order when both
  are given) creates a job on every store with fresh keys and referential integrity: the
  answer is 201 with the new job, whose id is the sequence's value and whose workers list
  is empty, and the job is the new last row.
\<close>

theorem post_jobs_created:
  assumes "length_ok (JobCreate_name body)" and "length_ok (JobCreate_customer body)"
    and "JobCreate_status body
           \<in> {None, Some ''In Progress'', Some ''Completed'', Some ''Cancelled''}"
    and "case (JobCreate_start_date body, JobCreate_end_date body) of
           (Some s, Some e) \<Rightarrow> s \<le> e | _ \<Rightarrow> True"
    and "keys_fresh db" and "referential_integrity db"
  shows "post_jobs body db =
           (Inr \<lparr>JobResponse_job = Job_of (jobs_id_seq db) body, JobResponse_workers = []\<rparr>,
            db\<lparr>jobs_id_seq := jobs_id_seq db + 1,
               jobs := jobs db @ [Job_of (jobs_id_seq db) body]\<rparr>)
         \<and> response_status HTTP_201_CREATED (fst (post_jobs body db)) = 201"
  using JobCreate_validate_ok[OF assms(1-4)] create_job_created[OF assms(5,6), of body]
  by (simp add: post_jobs_def)

theorem post_jobs_created_witness:
  "length_ok (JobCreate_name job_A) \<and> length_ok (JobCreate_customer job_A)
   \<and> JobCreate_status job_A = Some ''In Progress''
   \<and> keys_fresh example_store \<and> referential_integrity example_store
   \<and> fst (post_jobs job_A example_store)
       = Inr \<lparr>JobResponse_job =
               \<lparr>Job_id = 3, Job_name = ''A'', Job_customer = ''B'', Job_start_date = None,
                 Job_end_date = None, Job_status = Some ''In Progress''\<rparr>,
              JobResponse_workers = []\<rparr>
   \<and> response_status HTTP_201_CREATED (fst (post_jobs job_A example_store)) = 201"
proof -
  have h: "length_ok (JobCreate_name job_A)" "length_ok (JobCreate_customer job_A)"
    "JobCreate_status job_A
       \<in> {None, Some ''In Progress'', Some ''Completed'', Some ''Cancelled''}"
    "case (JobCreate_start_date job_A, JobCreate_end_date job_A) of
       (Some s, Some e) \<Rightarrow> s \<le> e | _ \<Rightarrow> True"
    by (simp_all add: job_A_def length_ok_def)
  have inv: "keys_fresh example_store" "referential_integrity example_store"
    by (simp_all add: keys_fresh_def referential_integrity_def example_store_simps)
  from post_jobs_created[OF h inv] h(1,2) inv show ?thesis
    by (simp add: job_A_def Job_of_def example_store_simps)
qed

lemma insert_worker_created:
  assumes fresh: "keys_fresh db"
    and job: "case WorkerCreate_job_id worker of None \<Rightarrow> True
              | Some j \<Rightarrow> j \<in> Job_id ` set (jobs db)"
  shows "insert_worker worker db =
           (Inr (Worker_of (workers_id_seq db) worker),
            db\<lparr>workers_id_seq := workers_id_seq db + 1,
               workers := workers db @ [Worker_of (workers_id_seq db) worker]\<rparr>)"
proof -
  have new: "workers_id_seq db \<notin> Worker_id ` set (workers db)"
    using fresh by (auto simp: keys_fresh_iff)
  with job show ?thesis
    by (auto simp: insert_worker_def Let_def Worker_of_def split: option.splits)
qed

text \<open>
  \<^verbatim>\<open>create_worker\<close> on a store with fresh keys: when \<^verbatim>\<open>job_id\<close> is absent or names a job
  of the store, the worker becomes the new last row, with the sequence's value as id, and
  is returned; when \<^verbatim>\<open>job_id\<close> is a nonzero id that no job has, the handler raises 404
  and the store is the same.
\<close>

theorem create_worker_result:
  assumes "keys_fresh db"
  shows "((WorkerCreate_job_id worker = None
           \<or> (\<exists>j. WorkerCreate_job_id worker = Some j \<and> j \<in> Job_id ` set (jobs db))) \<longrightarrow>
          create_worker worker db =
            (Inr (Worker_of (workers_id_seq db) worker),
             db\<lparr>workers_id_seq := workers_id_seq db + 1,
                workers := workers db @ [Worker_of (workers_id_seq db) worker]\<rparr>))
       \<and> (\<forall>j. WorkerCreate_job_id worker = Some j \<and> j \<noteq> 0 \<and> j \<notin> Job_id ` set (jobs db) \<longrightarrow>
            create_worker worker db = (Inl (job_not_found j), db)
            \<and> response_status HTTP_201_CREATED (fst (create_worker worker db)) = 404)"
proof (intro conjI impI allI)
  assume "WorkerCreate_job_id worker = None
          \<or> (\<exists>j. WorkerCreate_job_id worker = Some j \<and> j \<in> Job_id ` set (jobs db))"
  then have job: "case WorkerCreate_job_id worker of None \<Rightarrow> True
                  | Some j \<Rightarrow> j \<in> Job_id ` set (jobs db)"
    by (auto split: option.splits)
  then have "create_worker worker db = insert_worker worker db"
    by (auto simp: create_worker_def query_job_None_iff split: option.splits)
  with insert_worker_created[OF assms job]
  show "create_worker worker db =
            (Inr (Worker_of (workers_id_seq db) worker),
             db\<lparr>workers_id_seq := workers_id_seq db + 1,
                workers := workers db @ [Worker_of (workers_id_seq db) worker]\<rparr>)"
    by simp
next
  fix j
  assume "WorkerCreate_job_id worker = Some j \<and> j \<noteq> 0 \<and> j \<notin> Job_id ` set (jobs db)"
  then have absent: "create_worker worker db = (Inl (job_not_found j), db)"
    by (simp add: create_worker_job_absent)
  then show "create_worker worker db = (Inl (job_not_found j), db)" .
  from absent show "response_status HTTP_201_CREATED (fst (create_worker worker db)) = 404"
    by simp
qed

theorem create_worker_result_witness:
  "keys_fresh example_store
   \<and> WorkerCreate_job_id worker_W = Some 1 \<and> 1 \<in> Job_id ` set (jobs example_store)
   \<and> fst (create_worker worker_W example_store)
       = Inr \<lparr>Worker_id = 3, Worker_name = ''W'', Worker_role = ''R'', Worker_job_id = Some 1\<rparr>
   \<and> WorkerCreate_job_id (worker_W\<lparr>WorkerCreate_job_id := Some 7\<rparr>) = Some 7
   \<and> 7 \<notin> Job_id ` set (jobs example_store)
   \<and> create_worker (worker_W\<lparr>WorkerCreate_job_id := Some 7\<rparr>) example_store
       = (Inl (job_not_found 7), example_store)"
proof -
  have fresh: "keys_fresh example_store"
    by (simp add: keys_fresh_def example_store_simps)
  have present: "WorkerCreate_job_id worker_W = None
     \<or> (\<exists>j. WorkerCreate_job_id worker_W = Some j \<and> j \<in> Job_id ` set (jobs example_store))"
    and one: "WorkerCreate_job_id worker_W = Some 1 \<and> 1 \<in> Job_id ` set (jobs example_store)"
    by (simp_all add: worker_W_def example_store_simps)
  have absent: "WorkerCreate_job_id (worker_W\<lparr>WorkerCreate_job_id := Some 7\<rparr>) = Some 7
     \<and> (7 :: int) \<noteq> 0 \<and> 7 \<notin> Job_id ` set (jobs example_store)"
    by (simp add: example_store_simps)
  note created = create_worker_result
    [OF fresh, of worker_W, THEN conjunct1, rule_format, OF present]
  note refused = create_worker_result
    [OF fresh, of "worker_W\<lparr>WorkerCreate_job_id := Some 7\<rparr>", THEN conjunct2, rule_format,
     OF absent]
  from created have "fst (create_worker worker_W example_store)
       = Inr \<lparr>Worker_id = 3, Worker_name = ''W'', Worker_role = ''R'', Worker_job_id = Some 1\<rparr>"
    by (simp add: Worker_of_def worker_W_def example_store_simps)
  with fresh one absent refused show ?thesis by simp
qed

text \<open>
  Every body whose \<^verbatim>\<open>end_date\<close> is earlier than its \<^verbatim>\<open>start_date\<close> is rejected while it is
  validated: the answer has status 422 and the store is the same.
\<close>

theorem post_jobs_inverted_dates_rejected:
  "JobCreate_start_date body = Some s \<Longrightarrow> JobCreate_end_date body = Some e \<Longrightarrow> e < s \<Longrightarrow>
     post_jobs body db = (Inl RequestValidationError, db)
     \<and> response_status HTTP_201_CREATED (fst (post_jobs body db)) = 422"
  by (simp add: post_jobs_inverted_dates)

theorem post_jobs_inverted_dates_rejected_witness:
  "JobCreate_start_date (job_C\<lparr>JobCreate_end_date := Some 4\<rparr>) = Some 5
   \<and> JobCreate_end_date (job_C\<lparr>JobCreate_end_date := Some 4\<rparr>) = Some 4 \<and> (4 :: int) < 5
   \<and> post_jobs (job_C\<lparr>JobCreate_end_date := Some 4\<rparr>) example_store
       = (Inl RequestValidationError, example_store)
   \<and> response_status HTTP_201_CREATED
       (fst (post_jobs (job_C\<lparr>JobCreate_end_date := Some 4\<rparr>) example_store)) = 422"
proof -
  have h: "JobCreate_start_date (job_C\<lparr>JobCreate_end_date := Some 4\<rparr>) = Some 5"
    "JobCreate_end_date (job_C\<lparr>JobCreate_end_date := Some 4\<rparr>) = Some 4" "(4 :: int) < 5"
    by (simp_all add: job_C_def)
  from post_jobs_inverted_dates_rejected[OF h, of example_store] h show ?thesis by simp
qed

end
